theory Spec2Isabelle
  imports Complex_Main
begin

section \<open>Floating-point values\<close>

text \<open>
  The program computes in C++ \<^verbatim>\<open>float\<close>. A value is either finite, an infinity or
  not-a-number. Finite values are carried as reals: rounding, overflow to infinity and
  the sign of zero are not modelled (a zero divisor counts as positive zero, which is
  what a conversion of the integer 0 yields). The special values follow IEEE 754, whose
  division is defined for a zero divisor and does not trap. Two values that are equal
  here need not be equal as bit patterns in the program, since the program rounds: the
  model is exact at the special values and idealised at the finite ones.
\<close>

datatype cfloat = Finite real | PInf | NInf | NaN

definition float_of_int :: "int \<Rightarrow> cfloat" where
  "float_of_int i = Finite (of_int i)"

definition signed_inf :: "bool \<Rightarrow> cfloat" where
  "signed_inf positive = (if positive then PInf else NInf)"

fun fneg :: "cfloat \<Rightarrow> cfloat" where
  "fneg (Finite a) = Finite (- a)"
| "fneg PInf = NInf"
| "fneg NInf = PInf"
| "fneg NaN = NaN"

fun fadd :: "cfloat \<Rightarrow> cfloat \<Rightarrow> cfloat" where
  "fadd (Finite a) (Finite b) = Finite (a + b)"
| "fadd NaN _ = NaN"
| "fadd _ NaN = NaN"
| "fadd PInf NInf = NaN"
| "fadd NInf PInf = NaN"
| "fadd PInf _ = PInf"
| "fadd NInf _ = NInf"
| "fadd (Finite a) PInf = PInf"
| "fadd (Finite a) NInf = NInf"

definition fsub :: "cfloat \<Rightarrow> cfloat \<Rightarrow> cfloat" where
  "fsub a b = fadd a (fneg b)"

fun fmul :: "cfloat \<Rightarrow> cfloat \<Rightarrow> cfloat" where
  "fmul (Finite a) (Finite b) = Finite (a * b)"
| "fmul NaN _ = NaN"
| "fmul _ NaN = NaN"
| "fmul (Finite a) PInf = (if a = 0 then NaN else signed_inf (0 < a))"
| "fmul (Finite a) NInf = (if a = 0 then NaN else signed_inf (a < 0))"
| "fmul PInf (Finite b) = (if b = 0 then NaN else signed_inf (0 < b))"
| "fmul NInf (Finite b) = (if b = 0 then NaN else signed_inf (b < 0))"
| "fmul PInf PInf = PInf"
| "fmul PInf NInf = NInf"
| "fmul NInf PInf = NInf"
| "fmul NInf NInf = PInf"

text \<open>
  Division. HOL's own \<open>a / 0\<close> is \<open>0\<close>; the program's quotient by zero is an infinity
  carrying the sign of the dividend, or not-a-number for \<open>0 / 0\<close>.
\<close>

fun fdiv :: "cfloat \<Rightarrow> cfloat \<Rightarrow> cfloat" where
  "fdiv (Finite a) (Finite b) =
     (if b \<noteq> 0 then Finite (a / b)
      else if a = 0 then NaN
      else signed_inf (0 < a))"
| "fdiv NaN _ = NaN"
| "fdiv _ NaN = NaN"
| "fdiv (Finite a) PInf = Finite 0"
| "fdiv (Finite a) NInf = Finite 0"
| "fdiv PInf (Finite b) = signed_inf (0 \<le> b)"
| "fdiv NInf (Finite b) = signed_inf (b < 0)"
| "fdiv PInf PInf = NaN"
| "fdiv PInf NInf = NaN"
| "fdiv NInf PInf = NaN"
| "fdiv NInf NInf = NaN"

fun fcos :: "cfloat \<Rightarrow> cfloat" where
  "fcos (Finite a) = Finite (cos a)"
| "fcos _ = NaN"

fun fsin :: "cfloat \<Rightarrow> cfloat" where
  "fsin (Finite a) = Finite (sin a)"
| "fsin _ = NaN"

fun finversesqrt :: "cfloat \<Rightarrow> cfloat" where
  "finversesqrt (Finite a) =
     (if a < 0 then NaN else if a = 0 then PInf else Finite (1 / sqrt a))"
| "finversesqrt PInf = Finite 0"
| "finversesqrt NInf = NaN"
| "finversesqrt NaN = NaN"

section \<open>Vectors and matrices of the mathematics library\<close>

text \<open>
  \<^verbatim>\<open>glm::vec3\<close>, \<^verbatim>\<open>glm::vec4\<close> and \<^verbatim>\<open>glm::mat4\<close>. A matrix is stored by columns:
  \<open>Mat4 c0 c1 c2 c3\<close> has \<open>c0\<close> as its first column, so \<^verbatim>\<open>m[i][j]\<close> is row \<open>j\<close> of
  column \<open>i\<close>.
\<close>

datatype vec3 = Vec3 cfloat cfloat cfloat
datatype vec4 = Vec4 cfloat cfloat cfloat cfloat
datatype mat4 = Mat4 vec4 vec4 vec4 vec4

text \<open>
  Modelled from the spec: the componentwise operations on the library's vectors
  (\<^verbatim>\<open>lib/glm\<close> is not among the sources): a vector times a scalar, the sum of two
  vectors, the dot product.
\<close>

fun vec4_scale :: "vec4 \<Rightarrow> cfloat \<Rightarrow> vec4" where
  "vec4_scale (Vec4 a b c d) s = Vec4 (fmul a s) (fmul b s) (fmul c s) (fmul d s)"

fun vec4_add :: "vec4 \<Rightarrow> vec4 \<Rightarrow> vec4" where
  "vec4_add (Vec4 a b c d) (Vec4 a' b' c' d') =
     Vec4 (fadd a a') (fadd b b') (fadd c c') (fadd d d')"

fun vec3_dot :: "vec3 \<Rightarrow> vec3 \<Rightarrow> cfloat" where
  "vec3_dot (Vec3 a b c) (Vec3 a' b' c') =
     fadd (fadd (fmul a a') (fmul b b')) (fmul c c')"

fun vec3_scale :: "vec3 \<Rightarrow> cfloat \<Rightarrow> vec3" where
  "vec3_scale (Vec3 a b c) s = Vec3 (fmul a s) (fmul b s) (fmul c s)"

text \<open>
  Modelled from the spec: \<^verbatim>\<open>glm::normalize\<close> (the library under \<^verbatim>\<open>lib/glm\<close> is not
  among the sources), the vector scaled to unit length.
\<close>

definition glm_normalize :: "vec3 \<Rightarrow> vec3" where
  "glm_normalize v = vec3_scale v (finversesqrt (vec3_dot v v))"

text \<open>
  Modelled from the spec: \<^verbatim>\<open>glm::identity<glm::mat4>()\<close> (\<^verbatim>\<open>lib/glm\<close> is not among the
  sources), the identity starting matrix.
\<close>

definition glm_identity :: mat4 where
  "glm_identity =
     Mat4 (Vec4 (Finite 1) (Finite 0) (Finite 0) (Finite 0))
          (Vec4 (Finite 0) (Finite 1) (Finite 0) (Finite 0))
          (Vec4 (Finite 0) (Finite 0) (Finite 1) (Finite 0))
          (Vec4 (Finite 0) (Finite 0) (Finite 0) (Finite 1))"

text \<open>
  Modelled from the spec: the product of a matrix and a column vector, as the shading
  language and \<^verbatim>\<open>glm\<close> compute it (neither is among the sources): the linear
  combination of the columns.
\<close>

fun mat4_mul_vec4 :: "mat4 \<Rightarrow> vec4 \<Rightarrow> vec4" where
  "mat4_mul_vec4 (Mat4 c0 c1 c2 c3) (Vec4 a b c d) =
     vec4_add (vec4_add (vec4_add (vec4_scale c0 a) (vec4_scale c1 b)) (vec4_scale c2 c))
       (vec4_scale c3 d)"

text \<open>
  Modelled from the spec: \<^verbatim>\<open>operator*\<close> on \<^verbatim>\<open>glm::mat4\<close> (\<^verbatim>\<open>lib/glm\<close> is not among the
  sources), the matrix product; transforms compose right to left on column vectors.
\<close>

fun mat4_mul :: "mat4 \<Rightarrow> mat4 \<Rightarrow> mat4" where
  "mat4_mul m1 (Mat4 b0 b1 b2 b3) =
     Mat4 (mat4_mul_vec4 m1 b0) (mat4_mul_vec4 m1 b1) (mat4_mul_vec4 m1 b2)
       (mat4_mul_vec4 m1 b3)"

text \<open>
  Modelled from the spec: \<^verbatim>\<open>glm::rotate(m, angle, v)\<close> (\<^verbatim>\<open>lib/glm\<close> is not among the
  sources): the rotation by \<open>angle\<close> radians about the normalised axis \<open>v\<close>, built
  from the cosine and sine of the angle and applied to the starting matrix \<open>m\<close> on
  its right; the fourth column of \<open>m\<close> is kept.
\<close>

fun glm_rotate :: "mat4 \<Rightarrow> cfloat \<Rightarrow> vec3 \<Rightarrow> mat4" where
  "glm_rotate (Mat4 m0 m1 m2 m3) angle v =
     (let c = fcos angle; s = fsin angle in
      case glm_normalize v of Vec3 ax ay az \<Rightarrow>
      (case vec3_scale (Vec3 ax ay az) (fsub (Finite 1) c) of Vec3 tx ty tz \<Rightarrow>
        (let r00 = fadd c (fmul tx ax);
             r01 = fadd (fmul tx ay) (fmul s az);
             r02 = fsub (fmul tx az) (fmul s ay);
             r10 = fsub (fmul ty ax) (fmul s az);
             r11 = fadd c (fmul ty ay);
             r12 = fadd (fmul ty az) (fmul s ax);
             r20 = fadd (fmul tz ax) (fmul s ay);
             r21 = fsub (fmul tz ay) (fmul s ax);
             r22 = fadd c (fmul tz az)
         in Mat4
              (vec4_add (vec4_add (vec4_scale m0 r00) (vec4_scale m1 r01)) (vec4_scale m2 r02))
              (vec4_add (vec4_add (vec4_scale m0 r10) (vec4_scale m1 r11)) (vec4_scale m2 r12))
              (vec4_add (vec4_add (vec4_scale m0 r20) (vec4_scale m1 r21)) (vec4_scale m2 r22))
              m3)))"

text \<open>
  Modelled from the spec: \<^verbatim>\<open>glm::ortho(left, right, bottom, top, zNear, zFar)\<close>
  (\<^verbatim>\<open>lib/glm\<close> is not among the sources): the orthographic projection matrix with the
  given horizontal, vertical and near/far bounds, in the library's default
  right-handed convention with depth mapped to \<open>[-1, 1]\<close>.
\<close>

definition glm_ortho ::
  "cfloat \<Rightarrow> cfloat \<Rightarrow> cfloat \<Rightarrow> cfloat \<Rightarrow> cfloat \<Rightarrow> cfloat \<Rightarrow> mat4" where
  "glm_ortho left right bottom top' zNear zFar =
     Mat4 (Vec4 (fdiv (Finite 2) (fsub right left)) (Finite 0) (Finite 0) (Finite 0))
          (Vec4 (Finite 0) (fdiv (Finite 2) (fsub top' bottom)) (Finite 0) (Finite 0))
          (Vec4 (Finite 0) (Finite 0) (fdiv (fneg (Finite 2)) (fsub zFar zNear)) (Finite 0))
          (Vec4 (fdiv (fneg (fadd right left)) (fsub right left))
                (fdiv (fneg (fadd top' bottom)) (fsub top' bottom))
                (fdiv (fneg (fadd zFar zNear)) (fsub zFar zNear))
                (Finite 1))"

section \<open>The transform of a frame\<close>

text \<open>
  The body of the frame loop builds three matrices from the elapsed time and the aspect
  ratio: \<^verbatim>\<open>m = glm::rotate(glm::identity<glm::mat4>(), (float)glfwGetTime(), {-1, 0, 0})\<close>,
  \<^verbatim>\<open>p = glm::ortho(-ratio, ratio, -1.f, 1.f, 1.f, -1.f)\<close> and \<^verbatim>\<open>mvp = p * m\<close>.
\<close>

definition model :: "cfloat \<Rightarrow> mat4" where
  "model t = glm_rotate glm_identity t (Vec3 (Finite (- 1)) (Finite 0) (Finite 0))"

definition projection :: "cfloat \<Rightarrow> mat4" where
  "projection ratio =
     glm_ortho (fneg ratio) ratio (Finite (- 1)) (Finite 1) (Finite 1) (Finite (- 1))"

definition transform :: "cfloat \<Rightarrow> cfloat \<Rightarrow> mat4" where
  "transform t ratio = mat4_mul (projection ratio) (model t)"

section \<open>Constants of the collaborators' headers\<close>

text \<open>
  The headers of the window library and of the graphics API are not among the sources.
  The key and action codes are those of \<^verbatim>\<open>glfw3.h\<close>; the enumerators the program passes
  are kept symbolic.
\<close>

definition GLFW_KEY_ESCAPE :: int where "GLFW_KEY_ESCAPE = 256"
definition GLFW_RELEASE :: int where "GLFW_RELEASE = 0"
definition GLFW_PRESS :: int where "GLFW_PRESS = 1"
definition GLFW_REPEAT :: int where "GLFW_REPEAT = 2"
definition GLFW_TRUE :: int where "GLFW_TRUE = 1"

datatype glfw_hint = GLFW_CONTEXT_VERSION_MAJOR | GLFW_CONTEXT_VERSION_MINOR

datatype gl_enum =
    GL_ARRAY_BUFFER | GL_STATIC_DRAW | GL_VERTEX_SHADER | GL_FRAGMENT_SHADER
  | GL_FLOAT | GL_COLOR_BUFFER_BIT | GL_TRIANGLES

datatype exit_status = EXIT_SUCCESS | EXIT_FAILURE

fun exit_code :: "exit_status \<Rightarrow> int" where
  "exit_code EXIT_SUCCESS = 0"
| "exit_code EXIT_FAILURE = 1"

definition sizeof_float :: nat where "sizeof_float = 4"

text \<open>The conversion of a \<^verbatim>\<open>GLint\<close> location to the \<^verbatim>\<open>GLuint\<close> index of an attribute array.\<close>

definition gluint :: "int \<Rightarrow> nat" where
  "gluint i = nat (i mod 2 ^ 32)"

section \<open>Static data\<close>

text \<open>
  The anonymous struct of \<^verbatim>\<open>vertices\<close>: fields \<^verbatim>\<open>x, y\<close> (here \<open>pos_x\<close>, \<open>pos_y\<close>) and
  \<^verbatim>\<open>r, g, b\<close> (here \<open>col_r\<close>, \<open>col_g\<close>, \<open>col_b\<close>), in this order. The array is
  \<^verbatim>\<open>static const\<close>: a constant of the theory.
\<close>

record vertex =
  pos_x :: cfloat
  pos_y :: cfloat
  col_r :: cfloat
  col_g :: cfloat
  col_b :: cfloat

definition vertices :: "vertex list" where
  "vertices =
     [\<lparr>pos_x = Finite (- 0.6), pos_y = Finite (- 0.4),
       col_r = Finite 1, col_g = Finite 0, col_b = Finite 0\<rparr>,
      \<lparr>pos_x = Finite 0.6, pos_y = Finite (- 0.4),
       col_r = Finite 0, col_g = Finite 1, col_b = Finite 0\<rparr>,
      \<lparr>pos_x = Finite 0, pos_y = Finite 0.6,
       col_r = Finite 0, col_g = Finite 0, col_b = Finite 1\<rparr>]"

text \<open>The floats of a vertex record in memory order, and the sizes the program passes.\<close>

definition floats_of_vertex :: "vertex \<Rightarrow> cfloat list" where
  "floats_of_vertex v = [pos_x v, pos_y v, col_r v, col_g v, col_b v]"

definition sizeof_vertex :: nat where
  "sizeof_vertex = 5 * sizeof_float"

definition sizeof_vertices :: nat where
  "sizeof_vertices = length vertices * sizeof_vertex"

definition vertex_shader_text :: string where
  "vertex_shader_text =
     ''#version 110\<newline>'' @
     ''uniform mat4 MVP;\<newline>'' @
     ''attribute vec3 vCol;\<newline>'' @
     ''attribute vec2 vPos;\<newline>'' @
     ''varying vec3 color;\<newline>'' @
     ''void main()\<newline>'' @
     ''{\<newline>'' @
     ''    gl_Position = MVP * vec4(vPos, 0.0, 1.0);\<newline>'' @
     ''    color = vCol;\<newline>'' @
     ''}\<newline>''"

definition fragment_shader_text :: string where
  "fragment_shader_text =
     ''#version 110\<newline>'' @
     ''varying vec3 color;\<newline>'' @
     ''void main()\<newline>'' @
     ''{\<newline>'' @
     ''    gl_FragColor = vec4(color, 1.0);\<newline>'' @
     ''}\<newline>''"

text \<open>What the vertex stage computes for a position: \<^verbatim>\<open>MVP * vec4(vPos, 0.0, 1.0)\<close>.\<close>

definition gl_Position :: "mat4 \<Rightarrow> cfloat \<times> cfloat \<Rightarrow> vec4" where
  "gl_Position MVP vPos = mat4_mul_vec4 MVP (Vec4 (fst vPos) (snd vPos) (Finite 0) (Finite 1))"

section \<open>Calls and the environment\<close>

text \<open>
  A run is observed as the sequence of calls the program makes to its collaborators,
  each with the arguments it passes, and of the lines it writes to \<^verbatim>\<open>std::cerr\<close>.
  The two delete calls belong to the graphics API; the program has no statement that
  makes them.
\<close>

datatype call =
    GlfwSetErrorCallback
  | GlfwInit
  | GlfwWindowHint glfw_hint int
  | GlfwCreateWindow int int string
  | GlfwTerminate
  | GlfwSetKeyCallback
  | GlfwMakeContextCurrent
  | GladLoadGLLoader
  | GlfwSwapInterval int
  | GlGenBuffers nat
  | GlBindBuffer gl_enum nat
  | GlBufferData gl_enum nat "vertex list" gl_enum
  | GlCreateShader gl_enum
  | GlShaderSource nat nat string
  | GlCompileShader nat
  | GlCreateProgram
  | GlAttachShader nat nat
  | GlLinkProgram nat
  | GlGetUniformLocation nat string
  | GlGetAttribLocation nat string
  | GlEnableVertexAttribArray nat
  | GlVertexAttribPointer nat int gl_enum bool nat nat
  | GlfwGetTime
  | GlfwWindowShouldClose
  | GlfwGetFramebufferSize
  | GlViewport int int int int
  | GlClear gl_enum
  | GlUseProgram nat
  | GlUniformMatrix4fv int int bool mat4
  | GlDrawArrays gl_enum int int
  | GlfwSwapBuffers
  | GlfwPollEvents
  | GlfwDestroyWindow
  | GlDeleteBuffers nat
  | GlDeleteProgram nat
  | Cerr string

text \<open>
  What the collaborators answer. A frame holds the answers of one iteration of the
  loop: the framebuffer size, the timer read (already converted to \<^verbatim>\<open>float\<close>) and the
  input events that the poll of that iteration delivers. The environment holds the
  outcome of library initialisation and window creation with the errors the library
  reports through the error callback, the outcome of the two compilations and of the
  link (the program never queries them), the names and locations the graphics API hands
  out (the values of the locals of \<^verbatim>\<open>main\<close>), and the frames. The program reads every
  frame it is given until it finds the close flag set; a run that uses up its frames
  with the flag still clear has not terminated.
\<close>

datatype input_event = KeyEvent int int int int | CloseRequest

record frame =
  fb_width :: int
  fb_height :: int
  now :: cfloat
  events :: "input_event list"

record env =
  glfwInit_ok :: bool
  init_errors :: "(int \<times> string) list"
  window_created :: bool
  window_errors :: "(int \<times> string) list"
  vertex_shader_compiles :: bool
  fragment_shader_compiles :: bool
  program_links :: bool
  vertex_buffer :: nat
  vertex_shader :: nat
  fragment_shader :: nat
  program :: nat
  mvp_location :: int
  vpos_location :: int
  vcol_location :: int
  frames :: "frame list"

text \<open>The window, as far as the program depends on it: its close flag.\<close>

record glfw_window =
  should_close :: int

text \<open>
  The result of a run: the calls made, and the exit status, \<open>None\<close> when the frames
  ran out with the loop still running.
\<close>

record run =
  trace :: "call list"
  status :: "exit_status option"

section \<open>The callbacks\<close>

fun show_nat :: "nat \<Rightarrow> string" where
  "show_nat n =
     (if n < 10 then [''0123456789'' ! n]
      else show_nat (n div 10) @ [''0123456789'' ! (n mod 10)])"

definition show_int :: "int \<Rightarrow> string" where
  "show_int i = (if i < 0 then ''-'' @ show_nat (nat (- i)) else show_nat (nat i))"

text \<open>\<^verbatim>\<open>error_callback\<close>: the line written to \<^verbatim>\<open>std::cerr\<close>.\<close>

definition error_callback :: "int \<Rightarrow> string \<Rightarrow> string" where
  "error_callback error description =
     ''Error: '' @ show_int error @ '','' @ description @ ''\<newline>''"

text \<open>
  Modelled from the spec: \<^verbatim>\<open>glfwSetWindowShouldClose\<close> (the library under \<^verbatim>\<open>lib/glfw\<close>
  is not among the sources), which sets the close flag of the window.
\<close>

definition glfwSetWindowShouldClose :: "glfw_window \<Rightarrow> int \<Rightarrow> glfw_window" where
  "glfwSetWindowShouldClose window v = window\<lparr>should_close := v\<rparr>"

text \<open>
  Modelled from the spec: \<^verbatim>\<open>glfwWindowShouldClose\<close> (\<^verbatim>\<open>lib/glfw\<close> is not among the
  sources), which reads the close flag of the window.
\<close>

definition glfwWindowShouldClose :: "glfw_window \<Rightarrow> int" where
  "glfwWindowShouldClose window = should_close window"

definition key_callback :: "glfw_window \<Rightarrow> int \<Rightarrow> int \<Rightarrow> int \<Rightarrow> int \<Rightarrow> glfw_window" where
  "key_callback window key scancode action mods =
     (if key = GLFW_KEY_ESCAPE \<and> action = GLFW_PRESS
      then glfwSetWindowShouldClose window GLFW_TRUE
      else window)"

section \<open>The collaborators\<close>

text \<open>
  Modelled from the spec: the delivery of one pending event by the window library
  (\<^verbatim>\<open>lib/glfw\<close> is not among the sources): a key event runs the registered key
  callback, a platform close action sets the close flag.
\<close>

fun deliver :: "glfw_window \<Rightarrow> input_event \<Rightarrow> glfw_window" where
  "deliver window (KeyEvent key scancode action mods) =
     key_callback window key scancode action mods"
| "deliver window CloseRequest = glfwSetWindowShouldClose window GLFW_TRUE"

text \<open>
  Modelled from the spec: \<^verbatim>\<open>glfwPollEvents\<close> (\<^verbatim>\<open>lib/glfw\<close> is not among the sources),
  which drains the events that are pending, in order, and returns.
\<close>

definition glfwPollEvents :: "glfw_window \<Rightarrow> frame \<Rightarrow> glfw_window" where
  "glfwPollEvents window f = foldl deliver window (events f)"

text \<open>
  Modelled from the spec: the report of errors by the window library (\<^verbatim>\<open>lib/glfw\<close> is
  not among the sources): each error runs the registered error callback.
\<close>

definition report_errors :: "(int \<times> string) list \<Rightarrow> call list" where
  "report_errors es = map (\<lambda>(error, description). Cerr (error_callback error description)) es"

section \<open>The program\<close>

text \<open>The statements between \<^verbatim>\<open>glfwCreateWindow\<close> and the creation of the buffer.\<close>

definition context_setup :: "call list" where
  "context_setup =
     [GlfwSetKeyCallback, GlfwMakeContextCurrent, GladLoadGLLoader, GlfwSwapInterval 1]"

text \<open>
  The creation of the buffer, the shaders and the program, and the attribute layout.
  No statement reads a compile or link status.
\<close>

definition resource_setup :: "env \<Rightarrow> call list" where
  "resource_setup e =
     [GlGenBuffers 1,
      GlBindBuffer GL_ARRAY_BUFFER (vertex_buffer e),
      GlBufferData GL_ARRAY_BUFFER sizeof_vertices vertices GL_STATIC_DRAW,
      GlCreateShader GL_VERTEX_SHADER,
      GlShaderSource (vertex_shader e) 1 vertex_shader_text,
      GlCompileShader (vertex_shader e),
      GlCreateShader GL_FRAGMENT_SHADER,
      GlShaderSource (fragment_shader e) 1 fragment_shader_text,
      GlCompileShader (fragment_shader e),
      GlCreateProgram,
      GlAttachShader (program e) (vertex_shader e),
      GlAttachShader (program e) (fragment_shader e),
      GlLinkProgram (program e),
      GlGetUniformLocation (program e) ''MVP'',
      GlGetAttribLocation (program e) ''vPos'',
      GlGetAttribLocation (program e) ''vCol'',
      GlEnableVertexAttribArray (gluint (vpos_location e)),
      GlVertexAttribPointer (gluint (vpos_location e)) 2 GL_FLOAT False sizeof_vertex 0,
      GlEnableVertexAttribArray (gluint (vcol_location e)),
      GlVertexAttribPointer (gluint (vcol_location e)) 3 GL_FLOAT False sizeof_vertex
        (sizeof_float * 2)]"

text \<open>\<^verbatim>\<open>float ratio = width / static_cast<float>(height)\<close>: no test of \<^verbatim>\<open>height\<close>.\<close>

definition aspect_ratio :: "frame \<Rightarrow> cfloat" where
  "aspect_ratio f = fdiv (float_of_int (fb_width f)) (float_of_int (fb_height f))"

text \<open>
  One iteration of the loop body, in three parts: the size query, viewport and clear;
  the computation of the matrix, whose only call is the timer read; the upload, the
  draw, the swap and the poll.
\<close>

definition frame_begin :: "frame \<Rightarrow> call list" where
  "frame_begin f =
     [GlfwGetFramebufferSize,
      GlViewport 0 0 (fb_width f) (fb_height f),
      GlClear GL_COLOR_BUFFER_BIT]"

definition frame_transform :: "frame \<Rightarrow> call list \<times> mat4" where
  "frame_transform f = ([GlfwGetTime], transform (now f) (aspect_ratio f))"

definition frame_draw :: "env \<Rightarrow> mat4 \<Rightarrow> call list" where
  "frame_draw e mvp =
     [GlUseProgram (program e),
      GlUniformMatrix4fv (mvp_location e) 1 False mvp,
      GlDrawArrays GL_TRIANGLES 0 3,
      GlfwSwapBuffers,
      GlfwPollEvents]"

definition frame_body :: "env \<Rightarrow> frame \<Rightarrow> call list" where
  "frame_body e f =
     (case frame_transform f of (cs, mvp) \<Rightarrow> frame_begin f @ cs @ frame_draw e mvp)"

text \<open>
  \<^verbatim>\<open>while (!glfwWindowShouldClose(window)) { ... }\<close>. The result is the calls made and
  whether the loop was left; the frames that remain when the flag is found set are not
  read.
\<close>

fun frame_loop :: "env \<Rightarrow> glfw_window \<Rightarrow> frame list \<Rightarrow> call list \<times> bool" where
  "frame_loop e window [] =
     (if glfwWindowShouldClose window \<noteq> 0 then ([GlfwWindowShouldClose], True)
      else ([GlfwWindowShouldClose], False))"
| "frame_loop e window (f # fs) =
     (if glfwWindowShouldClose window \<noteq> 0 then ([GlfwWindowShouldClose], True)
      else case frame_loop e (glfwPollEvents window f) fs of
             (cs, stopped) \<Rightarrow> (GlfwWindowShouldClose # frame_body e f @ cs, stopped))"

text \<open>The loop and the statements after it.\<close>

definition loop_and_exit :: "env \<Rightarrow> glfw_window \<Rightarrow> frame list \<Rightarrow> run" where
  "loop_and_exit e window fs =
     (case frame_loop e window fs of
        (cs, stopped) \<Rightarrow>
          if stopped
          then \<lparr>trace = cs @ [GlfwDestroyWindow, GlfwTerminate], status = Some EXIT_SUCCESS\<rparr>
          else \<lparr>trace = cs, status = None\<rparr>)"

text \<open>
  Modelled from the spec: the window that \<^verbatim>\<open>glfwCreateWindow\<close> returns (\<^verbatim>\<open>lib/glfw\<close> is
  not among the sources); its close flag is clear.
\<close>

definition new_window :: glfw_window where
  "new_window = \<lparr>should_close = 0\<rparr>"

definition prepend :: "call list \<Rightarrow> run \<Rightarrow> run" where
  "prepend cs r = r\<lparr>trace := cs @ trace r\<rparr>"

definition main :: "env \<Rightarrow> run" where
  "main e =
     prepend ([GlfwSetErrorCallback, GlfwInit] @ report_errors (init_errors e))
      (if \<not> glfwInit_ok e then \<lparr>trace = [], status = Some EXIT_FAILURE\<rparr>
       else prepend
         ([GlfwWindowHint GLFW_CONTEXT_VERSION_MAJOR 3,
           GlfwWindowHint GLFW_CONTEXT_VERSION_MINOR 0,
           GlfwCreateWindow 640 480 ''My Title''] @ report_errors (window_errors e))
         (if \<not> window_created e
          then \<lparr>trace = [GlfwTerminate], status = Some EXIT_FAILURE\<rparr>
          else prepend (context_setup @ resource_setup e @ [GlfwGetTime])
                 (loop_and_exit e new_window (frames e))))"

text \<open>The calls of a run up to the first test of the loop, when startup succeeds.\<close>

definition startup_calls :: "env \<Rightarrow> call list" where
  "startup_calls e =
     [GlfwSetErrorCallback, GlfwInit] @ report_errors (init_errors e) @
     [GlfwWindowHint GLFW_CONTEXT_VERSION_MAJOR 3,
      GlfwWindowHint GLFW_CONTEXT_VERSION_MINOR 0,
      GlfwCreateWindow 640 480 ''My Title''] @ report_errors (window_errors e) @
     context_setup @ resource_setup e @ [GlfwGetTime]"

section \<open>Observations on traces\<close>

fun per_frame_call :: "call \<Rightarrow> bool" where
  "per_frame_call GlfwWindowShouldClose = True"
| "per_frame_call GlfwGetFramebufferSize = True"
| "per_frame_call (GlViewport a b c d) = True"
| "per_frame_call (GlClear m) = True"
| "per_frame_call GlfwGetTime = True"
| "per_frame_call (GlUseProgram p) = True"
| "per_frame_call (GlUniformMatrix4fv l n t m) = True"
| "per_frame_call (GlDrawArrays m a b) = True"
| "per_frame_call GlfwSwapBuffers = True"
| "per_frame_call GlfwPollEvents = True"
| "per_frame_call _ = False"

fun uploads_buffer :: "call \<Rightarrow> bool" where
  "uploads_buffer (GlBufferData target n d usage) = True"
| "uploads_buffer _ = False"

fun sets_attrib_pointer :: "call \<Rightarrow> bool" where
  "sets_attrib_pointer (GlVertexAttribPointer l n t nrm stride ofs) = True"
| "sets_attrib_pointer _ = False"

fun draws_or_presents :: "call \<Rightarrow> bool" where
  "draws_or_presents (GlDrawArrays m a b) = True"
| "draws_or_presents GlfwSwapBuffers = True"
| "draws_or_presents _ = False"

fun writes_cerr :: "call \<Rightarrow> bool" where
  "writes_cerr (Cerr s) = True"
| "writes_cerr _ = False"

fun uploaded_matrix :: "call \<Rightarrow> mat4 option" where
  "uploaded_matrix (GlUniformMatrix4fv l n t m) = Some m"
| "uploaded_matrix _ = None"

definition uploaded_matrices :: "call list \<Rightarrow> mat4 list" where
  "uploaded_matrices cs = List.map_filter uploaded_matrix cs"

section \<open>The objects a context owns\<close>

text \<open>
  Modelled from the spec: the ownership of the graphics objects (\<^verbatim>\<open>lib/glfw\<close> and the
  graphics API are not among the sources). The context is the graphics state container
  of the window; the buffer and the program are created in it and live in it. Releasing
  the window releases its context, and with the context every object that still lives
  in it; terminating the library does the same to a window that is still alive. A
  delete call releases objects that are alive. The program has at most one window. The
  record counts the windows, buffers and programs that are alive, that were created and
  that were released so far, and the calls that asked to release what was not alive.
\<close>

record resources =
  live_windows :: nat
  live_buffers :: nat
  live_programs :: nat
  made_windows :: nat
  made_buffers :: nat
  made_programs :: nat
  freed_windows :: nat
  freed_buffers :: nat
  freed_programs :: nat
  invalid_frees :: nat

definition no_resources :: resources where
  "no_resources =
     \<lparr>live_windows = 0, live_buffers = 0, live_programs = 0,
      made_windows = 0, made_buffers = 0, made_programs = 0,
      freed_windows = 0, freed_buffers = 0, freed_programs = 0, invalid_frees = 0\<rparr>"

text \<open>
  Modelled from the spec: the release of a context (not among the sources): every
  buffer and program alive in it is released, once.
\<close>

definition destroy_context :: "resources \<Rightarrow> resources" where
  "destroy_context r =
     r\<lparr>freed_buffers := freed_buffers r + live_buffers r, live_buffers := 0,
       freed_programs := freed_programs r + live_programs r, live_programs := 0\<rparr>"

text \<open>
  Modelled from the spec: what a call does to the objects (the collaborators are not
  among the sources). The first argument tells whether the creation of the window
  succeeds. Calls that neither create nor release leave the record as it is.
\<close>

fun effect :: "bool \<Rightarrow> resources \<Rightarrow> call \<Rightarrow> resources" where
  "effect ok r (GlfwCreateWindow w h title) =
     (if ok then r\<lparr>live_windows := live_windows r + 1, made_windows := made_windows r + 1\<rparr>
      else r)"
| "effect ok r (GlGenBuffers n) =
     r\<lparr>live_buffers := live_buffers r + n, made_buffers := made_buffers r + n\<rparr>"
| "effect ok r GlCreateProgram =
     r\<lparr>live_programs := live_programs r + 1, made_programs := made_programs r + 1\<rparr>"
| "effect ok r (GlDeleteBuffers n) =
     (if n \<le> live_buffers r
      then r\<lparr>live_buffers := live_buffers r - n, freed_buffers := freed_buffers r + n\<rparr>
      else r\<lparr>invalid_frees := invalid_frees r + 1\<rparr>)"
| "effect ok r (GlDeleteProgram p) =
     (if 0 < live_programs r
      then r\<lparr>live_programs := live_programs r - 1, freed_programs := freed_programs r + 1\<rparr>
      else r\<lparr>invalid_frees := invalid_frees r + 1\<rparr>)"
| "effect ok r GlfwDestroyWindow =
     (if 0 < live_windows r
      then destroy_context
             (r\<lparr>live_windows := live_windows r - 1, freed_windows := freed_windows r + 1\<rparr>)
      else r\<lparr>invalid_frees := invalid_frees r + 1\<rparr>)"
| "effect ok r GlfwTerminate =
     (if 0 < live_windows r
      then destroy_context
             (r\<lparr>freed_windows := freed_windows r + live_windows r, live_windows := 0\<rparr>)
      else r)"
| "effect ok r _ = r"

text \<open>The objects after a sequence of calls of a run, starting with none.\<close>

definition resources_after :: "env \<Rightarrow> call list \<Rightarrow> resources" where
  "resources_after e cs = foldl (effect (window_created e)) no_resources cs"

text \<open>
  One window, one buffer and one program created, all three alive and none released;
  and the same three created, each released once and none alive.
\<close>

definition one_of_each_alive :: resources where
  "one_of_each_alive =
     \<lparr>live_windows = 1, live_buffers = 1, live_programs = 1,
      made_windows = 1, made_buffers = 1, made_programs = 1,
      freed_windows = 0, freed_buffers = 0, freed_programs = 0, invalid_frees = 0\<rparr>"

definition one_of_each_released :: resources where
  "one_of_each_released =
     \<lparr>live_windows = 0, live_buffers = 0, live_programs = 0,
      made_windows = 1, made_buffers = 1, made_programs = 1,
      freed_windows = 1, freed_buffers = 1, freed_programs = 1, invalid_frees = 0\<rparr>"

section \<open>Reference definitions\<close>

text \<open>
  The rotation of a point \<open>p\<close> about a unit axis \<open>k\<close> by the angle \<open>a\<close>, by the
  axis-angle formula \<open>p cos a + (k \<times> p) sin a + k (k \<cdot> p) (1 - cos a)\<close>.
\<close>

definition spec_rotation ::
  "real \<times> real \<times> real \<Rightarrow> real \<Rightarrow> real \<times> real \<times> real \<Rightarrow> real \<times> real \<times> real" where
  "spec_rotation k a p =
     (case k of (kx, ky, kz) \<Rightarrow>
      case p of (px, py, pz) \<Rightarrow>
        (let d = kx * px + ky * py + kz * pz;
             cx = ky * pz - kz * py;
             cy = kz * px - kx * pz;
             cz = kx * py - ky * px
         in (px * cos a + cx * sin a + kx * d * (1 - cos a),
             py * cos a + cy * sin a + ky * d * (1 - cos a),
             pz * cos a + cz * sin a + kz * d * (1 - cos a))))"

text \<open>
  The orthographic map of a point for the bounds \<open>[l, r]\<close>, \<open>[b, t]\<close> and near/far
  \<open>n\<close>, \<open>f\<close>: each interval goes affinely onto \<open>[-1, 1]\<close>, the depths \<open>- n\<close> and
  \<open>- f\<close> going to \<open>-1\<close> and \<open>1\<close>.
\<close>

definition spec_ortho ::
  "real \<Rightarrow> real \<Rightarrow> real \<Rightarrow> real \<Rightarrow> real \<Rightarrow> real \<Rightarrow>
   real \<times> real \<times> real \<Rightarrow> real \<times> real \<times> real" where
  "spec_ortho l r b t n f p =
     (case p of (px, py, pz) \<Rightarrow>
        (2 * (px - l) / (r - l) - 1,
         2 * (py - b) / (t - b) - 1,
         2 * (- pz - n) / (f - n) - 1))"

text \<open>A point in homogeneous coordinates.\<close>

definition point :: "real \<times> real \<times> real \<Rightarrow> vec4" where
  "point p = (case p of (px, py, pz) \<Rightarrow> Vec4 (Finite px) (Finite py) (Finite pz) (Finite 1))"

section \<open>Example inputs\<close>

text \<open>A frame whose poll delivers a press of the escape key, and one of height zero.\<close>

definition escape_frame :: frame where
  "escape_frame =
     \<lparr>fb_width = 640, fb_height = 480, now = Finite 0, events = [KeyEvent 256 9 1 0]\<rparr>"

definition zero_height_frame :: frame where
  "zero_height_frame = \<lparr>fb_width = 640, fb_height = 0, now = Finite 0, events = []\<rparr>"

text \<open>
  A run where everything succeeds and the first poll delivers the escape key; the same
  with a vertex stage that does not compile and a program that does not link, so that
  the three locations are the not-found value; with a failing library
  initialisation; with a failing window creation.
\<close>

definition good_env :: env where
  "good_env =
     \<lparr>glfwInit_ok = True, init_errors = [], window_created = True, window_errors = [],
      vertex_shader_compiles = True, fragment_shader_compiles = True, program_links = True,
      vertex_buffer = 1, vertex_shader = 1, fragment_shader = 2, program = 3,
      mvp_location = 0, vpos_location = 1, vcol_location = 0,
      frames = [escape_frame]\<rparr>"

definition broken_shader_env :: env where
  "broken_shader_env =
     good_env\<lparr>vertex_shader_compiles := False, program_links := False,
               mvp_location := - 1, vpos_location := - 1, vcol_location := - 1\<rparr>"

definition no_init_env :: env where
  "no_init_env =
     good_env\<lparr>glfwInit_ok := False,
               init_errors := [(65544, ''X11: The DISPLAY environment variable is missing'')]\<rparr>"

definition no_window_env :: env where
  "no_window_env = good_env\<lparr>window_created := False\<rparr>"

section \<open>The loop and the run: structure\<close>

lemma frame_loop_closed:
  "glfwWindowShouldClose w \<noteq> 0 \<Longrightarrow> frame_loop e w fs = ([GlfwWindowShouldClose], True)"
  by (cases fs) simp_all

lemma frame_loop_step:
  "glfwWindowShouldClose w = 0 \<Longrightarrow>
     frame_loop e w (f # fs) =
       (GlfwWindowShouldClose # frame_body e f @ fst (frame_loop e (glfwPollEvents w f) fs),
        snd (frame_loop e (glfwPollEvents w f) fs))"
  by (simp add: case_prod_unfold)

lemma frame_body_calls:
  "frame_body e f =
     [GlfwGetFramebufferSize,
      GlViewport 0 0 (fb_width f) (fb_height f),
      GlClear GL_COLOR_BUFFER_BIT,
      GlfwGetTime,
      GlUseProgram (program e),
      GlUniformMatrix4fv (mvp_location e) 1 False (transform (now f) (aspect_ratio f)),
      GlDrawArrays GL_TRIANGLES 0 3,
      GlfwSwapBuffers,
      GlfwPollEvents]"
  by (simp add: frame_body_def frame_begin_def frame_transform_def frame_draw_def)

lemma frame_body_per_frame: "list_all per_frame_call (frame_body e f)"
  by (simp add: frame_body_calls)

lemma frame_loop_per_frame: "list_all per_frame_call (fst (frame_loop e w fs))"
proof (induction fs arbitrary: w)
  case Nil
  show ?case by simp
next
  case (Cons f fs)
  show ?case
  proof (cases "glfwWindowShouldClose w = 0")
    case True
    then show ?thesis
      using Cons.IH [of "glfwPollEvents w f"] frame_body_per_frame [of e f]
      by (simp add: frame_loop_step del: frame_loop.simps)
  next
    case False
    then show ?thesis by (simp add: frame_loop_closed del: frame_loop.simps)
  qed
qed

lemma filter_none: "list_all P xs \<Longrightarrow> (\<And>x. P x \<Longrightarrow> \<not> Q x) \<Longrightarrow> filter Q xs = []"
  by (induction xs) auto

lemma main_ok:
  "glfwInit_ok e \<Longrightarrow> window_created e \<Longrightarrow>
     main e = prepend (startup_calls e) (loop_and_exit e new_window (frames e))"
  by (simp add: main_def prepend_def startup_calls_def)

lemma main_trace_ok:
  "glfwInit_ok e \<Longrightarrow> window_created e \<Longrightarrow>
     trace (main e) =
       startup_calls e @ fst (frame_loop e new_window (frames e)) @
       (if snd (frame_loop e new_window (frames e)) then [GlfwDestroyWindow, GlfwTerminate]
        else [])"
  by (simp add: main_ok prepend_def loop_and_exit_def case_prod_unfold)

lemma main_status_ok:
  "glfwInit_ok e \<Longrightarrow> window_created e \<Longrightarrow>
     status (main e) =
       (if snd (frame_loop e new_window (frames e)) then Some EXIT_SUCCESS else None)"
  by (simp add: main_ok prepend_def loop_and_exit_def case_prod_unfold)

lemma main_no_init:
  "\<not> glfwInit_ok e \<Longrightarrow>
     main e = \<lparr>trace = [GlfwSetErrorCallback, GlfwInit] @ report_errors (init_errors e),
               status = Some EXIT_FAILURE\<rparr>"
  by (simp add: main_def prepend_def)

lemma main_no_window:
  "glfwInit_ok e \<Longrightarrow> \<not> window_created e \<Longrightarrow>
     main e = \<lparr>trace = [GlfwSetErrorCallback, GlfwInit] @ report_errors (init_errors e) @
                 [GlfwWindowHint GLFW_CONTEXT_VERSION_MAJOR 3,
                  GlfwWindowHint GLFW_CONTEXT_VERSION_MINOR 0,
                  GlfwCreateWindow 640 480 ''My Title''] @ report_errors (window_errors e) @
                 [GlfwTerminate],
               status = Some EXIT_FAILURE\<rparr>"
  by (simp add: main_def prepend_def)

text \<open>
  The loop is left exactly when the close flag is set after some number of polls of the
  frames given.
\<close>

lemma loop_stops_iff:
  "snd (frame_loop e w fs) =
     (\<exists>k\<le>length fs. glfwWindowShouldClose (foldl glfwPollEvents w (take k fs)) \<noteq> 0)"
proof (induction fs arbitrary: w)
  case Nil
  show ?case by simp
next
  case (Cons f fs)
  show ?case
  proof (cases "glfwWindowShouldClose w = 0")
    case False
    then have "glfwWindowShouldClose (foldl glfwPollEvents w (take 0 (f # fs))) \<noteq> 0"
      by simp
    then have "\<exists>k\<le>length (f # fs).
        glfwWindowShouldClose (foldl glfwPollEvents w (take k (f # fs))) \<noteq> 0"
      by blast
    with False show ?thesis by (simp add: frame_loop_closed del: frame_loop.simps)
  next
    case True
    have "(\<exists>k\<le>length (f # fs).
             glfwWindowShouldClose (foldl glfwPollEvents w (take k (f # fs))) \<noteq> 0)
        = (\<exists>k\<le>length fs.
             glfwWindowShouldClose (foldl glfwPollEvents (glfwPollEvents w f) (take k fs)) \<noteq> 0)"
      (is "?L = ?R")
    proof
      assume ?L
      then obtain k where k: "k \<le> length (f # fs)"
        "glfwWindowShouldClose (foldl glfwPollEvents w (take k (f # fs))) \<noteq> 0" by blast
      with True obtain j where "k = Suc j" by (cases k) auto
      with k show ?R by auto
    next
      assume ?R
      then obtain k where "k \<le> length fs"
        "glfwWindowShouldClose (foldl glfwPollEvents (glfwPollEvents w f) (take k fs)) \<noteq> 0"
        by blast
      then have "Suc k \<le> length (f # fs) \<and>
        glfwWindowShouldClose (foldl glfwPollEvents w (take (Suc k) (f # fs))) \<noteq> 0" by simp
      then show ?L by blast
    qed
    with True Cons.IH [of "glfwPollEvents w f"] show ?thesis
      by (simp add: frame_loop_step del: frame_loop.simps)
  qed
qed

lemma escape_closes: "glfwWindowShouldClose (glfwPollEvents new_window escape_frame) \<noteq> 0"
  by (simp add: glfwPollEvents_def escape_frame_def key_callback_def GLFW_KEY_ESCAPE_def
      GLFW_PRESS_def GLFW_TRUE_def glfwSetWindowShouldClose_def glfwWindowShouldClose_def)

lemma new_window_open: "glfwWindowShouldClose new_window = 0"
  by (simp add: new_window_def glfwWindowShouldClose_def)

lemma escape_loop:
  "frame_loop e new_window [escape_frame] =
     (GlfwWindowShouldClose # frame_body e escape_frame @ [GlfwWindowShouldClose], True)"
  using escape_closes by (simp add: new_window_open)

lemma frame_loop_ignores_rest:
  "glfwWindowShouldClose (foldl glfwPollEvents w fs) \<noteq> 0 \<Longrightarrow>
     frame_loop e w (fs @ gs) = frame_loop e w fs"
proof (induction fs arbitrary: w)
  case Nil
  then show ?case by (simp add: frame_loop_closed del: frame_loop.simps)
next
  case (Cons f fs)
  show ?case
  proof (cases "glfwWindowShouldClose w = 0")
    case False
    then show ?thesis by (simp add: frame_loop_closed del: frame_loop.simps)
  next
    case True
    from Cons.prems
    have "glfwWindowShouldClose (foldl glfwPollEvents (glfwPollEvents w f) fs) \<noteq> 0"
      by simp
    then have "frame_loop e (glfwPollEvents w f) (fs @ gs) =
        frame_loop e (glfwPollEvents w f) fs"
      by (rule Cons.IH)
    with True show ?thesis by (simp add: frame_loop_step del: frame_loop.simps)
  qed
qed

lemma good_env_loop: "snd (frame_loop e new_window (frames good_env))"
  by (simp add: good_env_def escape_loop del: frame_loop.simps)

lemma success_run:
  assumes "status (main e) = Some EXIT_SUCCESS"
  shows "glfwInit_ok e" "window_created e" "snd (frame_loop e new_window (frames e))"
proof -
  show i: "glfwInit_ok e"
    using assms by (cases "glfwInit_ok e") (simp_all add: main_no_init)
  show w: "window_created e"
    using assms i by (cases "window_created e") (simp_all add: main_no_window)
  show "snd (frame_loop e new_window (frames e))"
    using assms i w by (simp add: main_status_ok split: if_splits)
qed

section \<open>Calls that the loop and the error reports never make\<close>

lemma filter_report_errors:
  "(\<And>s. \<not> Q (Cerr s)) \<Longrightarrow> filter Q (report_errors es) = []"
  by (induction es) (auto simp: report_errors_def)

lemma filter_loop:
  "(\<And>c. per_frame_call c \<Longrightarrow> \<not> Q c) \<Longrightarrow> filter Q (fst (frame_loop e w fs)) = []"
  using filter_none [OF frame_loop_per_frame] by blast

lemma per_frame_not_upload: "per_frame_call c \<Longrightarrow> \<not> uploads_buffer c"
  by (cases c) simp_all

lemma per_frame_not_pointer: "per_frame_call c \<Longrightarrow> \<not> sets_attrib_pointer c"
  by (cases c) simp_all

section \<open>The objects through a run\<close>

lemma effect_per_frame: "per_frame_call c \<Longrightarrow> effect ok r c = r"
  by (cases c) simp_all

lemma effect_loop: "list_all per_frame_call cs \<Longrightarrow> foldl (effect ok) r cs = r"
  by (induction cs arbitrary: r) (simp_all add: effect_per_frame)

lemma effect_report_errors: "foldl (effect ok) r (report_errors es) = r"
  by (induction es arbitrary: r) (auto simp: report_errors_def)

lemma resources_startup:
  "window_created e \<Longrightarrow> resources_after e (startup_calls e) = one_of_each_alive"
  by (simp add: resources_after_def startup_calls_def context_setup_def resource_setup_def
      effect_report_errors no_resources_def one_of_each_alive_def)

lemma resources_loop:
  "resources_after e (cs @ fst (frame_loop e w fs)) = resources_after e cs"
  by (simp add: resources_after_def effect_loop frame_loop_per_frame del: frame_loop.simps)

section \<open>The matrices\<close>

lemma projection_finite:
  "r \<noteq> 0 \<Longrightarrow> projection (Finite r) =
     Mat4 (Vec4 (Finite (1 / r)) (Finite 0) (Finite 0) (Finite 0))
          (Vec4 (Finite 0) (Finite 1) (Finite 0) (Finite 0))
          (Vec4 (Finite 0) (Finite 0) (Finite 1) (Finite 0))
          (Vec4 (Finite 0) (Finite 0) (Finite 0) (Finite 1))"
  by (simp add: projection_def glm_ortho_def fsub_def)

lemma model_finite:
  "model (Finite a) =
     Mat4 (Vec4 (Finite 1) (Finite 0) (Finite 0) (Finite 0))
          (Vec4 (Finite 0) (Finite (cos a)) (Finite (- sin a)) (Finite 0))
          (Vec4 (Finite 0) (Finite (sin a)) (Finite (cos a)) (Finite 0))
          (Vec4 (Finite 0) (Finite 0) (Finite 0) (Finite 1))"
  by (simp add: model_def glm_identity_def glm_normalize_def fsub_def Let_def)

lemma uploaded_frame_body:
  "uploaded_matrices (frame_body e f) = [transform (now f) (aspect_ratio f)]"
  by (simp add: frame_body_calls uploaded_matrices_def List.map_filter_simps)

lemma aspect_ratio_zero_height:
  "fb_height f = 0 \<Longrightarrow>
     aspect_ratio f = (if fb_width f = 0 then NaN else signed_inf (0 < fb_width f))"
  by (simp add: aspect_ratio_def float_of_int_def)

lemma sizes: "sizeof_vertex = 20" "sizeof_vertices = 60" "sizeof_float * 2 = 8"
  by (simp_all add: sizeof_vertex_def sizeof_vertices_def sizeof_float_def vertices_def)

section \<open>An iteration with a framebuffer of height zero\<close>

text \<open>
  C1, as stated, fails. For the frame of width 640 and height 0 the divisor of the
  aspect ratio is zero and the quotient is positive infinity, not the value 1; the draw
  call is made all the same, and the matrix uploaded for it has not-a-number in its
  first row.
\<close>

theorem zero_height_counterexample:
  "fb_height zero_height_frame = 0 \<and>
   float_of_int (fb_height zero_height_frame) = Finite 0 \<and>
   aspect_ratio zero_height_frame = PInf \<and>
   aspect_ratio zero_height_frame \<noteq> Finite 1 \<and>
   GlDrawArrays GL_TRIANGLES 0 3 \<in> set (frame_body good_env zero_height_frame) \<and>
   uploaded_matrices (frame_body good_env zero_height_frame) =
     [Mat4 (Vec4 NaN (Finite 0) (Finite 0) (Finite 0))
           (Vec4 NaN (Finite 1) (Finite 0) (Finite 0))
           (Vec4 NaN (Finite 0) (Finite 1) (Finite 0))
           (Vec4 NaN (Finite 0) (Finite 0) (Finite 1))]"
proof -
  have r: "aspect_ratio zero_height_frame = PInf"
    by (simp add: aspect_ratio_def float_of_int_def zero_height_frame_def signed_inf_def)
  have p: "projection PInf =
     Mat4 (Vec4 (Finite 0) (Finite 0) (Finite 0) (Finite 0))
          (Vec4 (Finite 0) (Finite 1) (Finite 0) (Finite 0))
          (Vec4 (Finite 0) (Finite 0) (Finite 1) (Finite 0))
          (Vec4 NaN (Finite 0) (Finite 0) (Finite 1))"
    by (simp add: projection_def glm_ortho_def fsub_def)
  have t: "transform (Finite 0) PInf =
      Mat4 (Vec4 NaN (Finite 0) (Finite 0) (Finite 0))
           (Vec4 NaN (Finite 1) (Finite 0) (Finite 0))
           (Vec4 NaN (Finite 0) (Finite 1) (Finite 0))
           (Vec4 NaN (Finite 0) (Finite 0) (Finite 1))"
    by (simp add: transform_def p model_finite)
  have n: "now zero_height_frame = Finite 0" by (simp add: zero_height_frame_def)
  have u: "uploaded_matrices (frame_body good_env zero_height_frame) =
     [Mat4 (Vec4 NaN (Finite 0) (Finite 0) (Finite 0))
           (Vec4 NaN (Finite 1) (Finite 0) (Finite 0))
           (Vec4 NaN (Finite 0) (Finite 1) (Finite 0))
           (Vec4 NaN (Finite 0) (Finite 0) (Finite 1))]"
    by (simp add: uploaded_frame_body r n t)
  have d: "GlDrawArrays GL_TRIANGLES 0 3 \<in> set (frame_body good_env zero_height_frame)"
    by (simp add: frame_body_calls)
  have h: "fb_height zero_height_frame = 0" by (simp add: zero_height_frame_def)
  then have z: "float_of_int (fb_height zero_height_frame) = Finite 0"
    by (simp add: float_of_int_def)
  from h z r d u show ?thesis by simp
qed

text \<open>
  C1, amended. In every iteration in which the framebuffer query reports height 0 the
  aspect ratio is the unguarded quotient by zero: not-a-number for width 0 and an
  infinity otherwise, never the value 1. The iteration still makes all its calls in
  order, the draw, the swap and the poll among them, and the loop goes on to its next
  test: the condition is not fatal, and nothing is skipped or substituted.
\<close>

theorem zero_height_iteration:
  "fb_height f = 0 \<Longrightarrow>
     aspect_ratio f = (if fb_width f = 0 then NaN else signed_inf (0 < fb_width f)) \<and>
     aspect_ratio f \<noteq> Finite 1 \<and>
     frame_body e f =
       [GlfwGetFramebufferSize,
        GlViewport 0 0 (fb_width f) 0,
        GlClear GL_COLOR_BUFFER_BIT,
        GlfwGetTime,
        GlUseProgram (program e),
        GlUniformMatrix4fv (mvp_location e) 1 False (transform (now f) (aspect_ratio f)),
        GlDrawArrays GL_TRIANGLES 0 3,
        GlfwSwapBuffers,
        GlfwPollEvents] \<and>
     (glfwWindowShouldClose w = 0 \<longrightarrow>
        frame_loop e w (f # fs) =
          (GlfwWindowShouldClose # frame_body e f @
             fst (frame_loop e (glfwPollEvents w f) fs),
           snd (frame_loop e (glfwPollEvents w f) fs)))"
proof -
  assume h: "fb_height f = 0"
  have a: "aspect_ratio f = (if fb_width f = 0 then NaN else signed_inf (0 < fb_width f))"
    using h by (rule aspect_ratio_zero_height)
  then have b: "aspect_ratio f \<noteq> Finite 1" by (simp add: signed_inf_def)
  have c: "frame_body e f =
       [GlfwGetFramebufferSize,
        GlViewport 0 0 (fb_width f) 0,
        GlClear GL_COLOR_BUFFER_BIT,
        GlfwGetTime,
        GlUseProgram (program e),
        GlUniformMatrix4fv (mvp_location e) 1 False (transform (now f) (aspect_ratio f)),
        GlDrawArrays GL_TRIANGLES 0 3,
        GlfwSwapBuffers,
        GlfwPollEvents]"
    using h by (simp add: frame_body_calls)
  have d: "glfwWindowShouldClose w = 0 \<longrightarrow>
        frame_loop e w (f # fs) =
          (GlfwWindowShouldClose # frame_body e f @
             fst (frame_loop e (glfwPollEvents w f) fs),
           snd (frame_loop e (glfwPollEvents w f) fs))"
    using frame_loop_step [of w e f fs] by blast
  from a b c d show ?thesis by blast
qed

theorem zero_height_iteration_witness:
  "fb_height zero_height_frame = 0 \<and>
   aspect_ratio zero_height_frame = PInf \<and>
   glfwWindowShouldClose new_window = 0 \<and>
   frame_loop good_env new_window [zero_height_frame, escape_frame] =
     (GlfwWindowShouldClose # frame_body good_env zero_height_frame @
        fst (frame_loop good_env (glfwPollEvents new_window zero_height_frame) [escape_frame]),
      snd (frame_loop good_env (glfwPollEvents new_window zero_height_frame) [escape_frame]))"
proof -
  have h: "fb_height zero_height_frame = 0" by (simp add: zero_height_frame_def)
  note t = zero_height_iteration [OF h, of good_env new_window "[escape_frame]"]
  from t have "aspect_ratio zero_height_frame =
      (if fb_width zero_height_frame = 0 then NaN
       else signed_inf (0 < fb_width zero_height_frame))"
    by blast
  then have r: "aspect_ratio zero_height_frame = PInf"
    by (simp add: zero_height_frame_def signed_inf_def)
  from t new_window_open have l:
    "frame_loop good_env new_window [zero_height_frame, escape_frame] =
     (GlfwWindowShouldClose # frame_body good_env zero_height_frame @
        fst (frame_loop good_env (glfwPollEvents new_window zero_height_frame) [escape_frame]),
      snd (frame_loop good_env (glfwPollEvents new_window zero_height_frame) [escape_frame]))"
    by blast
  from h r new_window_open l show ?thesis by blast
qed

section \<open>Shaders that do not compile, a program that does not link\<close>

text \<open>
  C2, as stated, fails. In the run where the vertex stage does not compile and the
  program does not link, the process writes nothing to the error stream, draws a frame
  and exits with the success status.
\<close>

theorem shader_failure_counterexample:
  "\<not> vertex_shader_compiles broken_shader_env \<and>
   \<not> program_links broken_shader_env \<and>
   status (main broken_shader_env) = Some EXIT_SUCCESS \<and>
   GlDrawArrays GL_TRIANGLES 0 3 \<in> set (trace (main broken_shader_env)) \<and>
   filter writes_cerr (trace (main broken_shader_env)) = []"
proof -
  have i: "glfwInit_ok broken_shader_env" "window_created broken_shader_env"
    "frames broken_shader_env = [escape_frame]"
    "init_errors broken_shader_env = []" "window_errors broken_shader_env = []"
    by (simp_all add: broken_shader_env_def good_env_def)
  have a: "\<not> vertex_shader_compiles broken_shader_env" "\<not> program_links broken_shader_env"
    by (simp_all add: broken_shader_env_def)
  have s: "status (main broken_shader_env) = Some EXIT_SUCCESS"
    by (simp add: main_status_ok i escape_loop del: frame_loop.simps)
  have t: "trace (main broken_shader_env) =
      startup_calls broken_shader_env @
      (GlfwWindowShouldClose # frame_body broken_shader_env escape_frame @
         [GlfwWindowShouldClose]) @
      [GlfwDestroyWindow, GlfwTerminate]"
    by (simp add: main_trace_ok i escape_loop del: frame_loop.simps)
  have d: "GlDrawArrays GL_TRIANGLES 0 3 \<in> set (trace (main broken_shader_env))"
    by (simp add: t frame_body_calls)
  have c: "filter writes_cerr (trace (main broken_shader_env)) = []"
    by (simp add: t frame_body_calls startup_calls_def i report_errors_def context_setup_def
        resource_setup_def)
  from a s d c show ?thesis by blast
qed

text \<open>
  C2, amended. A shader stage that does not compile or a program that does not link
  does not end the run: whenever the initialisation of the library and the creation of
  the window succeed, whatever the outcome of the compilations and of the link, the
  process does not terminate with the failure status; it enters the frame loop and makes
  the draw call as soon as the loop has a first iteration.
\<close>

theorem shader_failure_not_fatal:
  "glfwInit_ok e \<and> window_created e \<longrightarrow>
     status (main e) \<noteq> Some EXIT_FAILURE \<and>
     (\<forall>f fs. frames e = f # fs \<longrightarrow>
        GlDrawArrays GL_TRIANGLES 0 3 \<in> set (trace (main e)))"
  by (simp add: main_status_ok main_trace_ok new_window_open frame_loop_step
      frame_body_calls del: frame_loop.simps)

theorem shader_failure_not_fatal_witness:
  "\<not> vertex_shader_compiles broken_shader_env \<and>
   \<not> program_links broken_shader_env \<and>
   glfwInit_ok broken_shader_env \<and> window_created broken_shader_env \<and>
   frames broken_shader_env = [escape_frame] \<and>
   status (main broken_shader_env) \<noteq> Some EXIT_FAILURE \<and>
   GlDrawArrays GL_TRIANGLES 0 3 \<in> set (trace (main broken_shader_env))"
proof -
  have i: "glfwInit_ok broken_shader_env" "window_created broken_shader_env"
    "frames broken_shader_env = [escape_frame]"
    by (simp_all add: broken_shader_env_def good_env_def)
  have a: "\<not> vertex_shader_compiles broken_shader_env" "\<not> program_links broken_shader_env"
    by (simp_all add: broken_shader_env_def)
  from shader_failure_not_fatal [of broken_shader_env] i
  have "status (main broken_shader_env) \<noteq> Some EXIT_FAILURE \<and>
      GlDrawArrays GL_TRIANGLES 0 3 \<in> set (trace (main broken_shader_env))"
    by blast
  with a i show ?thesis by blast
qed

section \<open>The lifetime of the buffer, the program and the window\<close>

text \<open>
  C3. A complete run is one that leaves the frame loop and reaches the statements after
  it. Over any such run exactly one window, one vertex buffer and one shader program
  are created; all three are alive and unreleased when the loop starts and when it
  ends; the call that destroys the window, made once after the loop, releases the
  window and, with its context, the buffer and the program, each once; the termination
  of the library that follows finds nothing left to release, and at exit nothing is
  alive and no call has asked to release what was not alive. A run that ends with the
  failure status has created nothing.
\<close>

theorem resource_lifecycle:
  "(status (main e) = Some EXIT_SUCCESS \<longrightarrow>
      trace (main e) =
        startup_calls e @ fst (frame_loop e new_window (frames e)) @
        [GlfwDestroyWindow, GlfwTerminate] \<and>
      resources_after e (startup_calls e) = one_of_each_alive \<and>
      resources_after e (startup_calls e @ fst (frame_loop e new_window (frames e))) =
        one_of_each_alive \<and>
      resources_after e
        (startup_calls e @ fst (frame_loop e new_window (frames e)) @ [GlfwDestroyWindow]) =
        one_of_each_released \<and>
      resources_after e (trace (main e)) = one_of_each_released) \<and>
   (status (main e) = Some EXIT_FAILURE \<longrightarrow> resources_after e (trace (main e)) = no_resources)"
proof -
  have good: "trace (main e) =
        startup_calls e @ fst (frame_loop e new_window (frames e)) @
        [GlfwDestroyWindow, GlfwTerminate] \<and>
      resources_after e (startup_calls e) = one_of_each_alive \<and>
      resources_after e (startup_calls e @ fst (frame_loop e new_window (frames e))) =
        one_of_each_alive \<and>
      resources_after e
        (startup_calls e @ fst (frame_loop e new_window (frames e)) @ [GlfwDestroyWindow]) =
        one_of_each_released \<and>
      resources_after e (trace (main e)) = one_of_each_released"
    if s: "status (main e) = Some EXIT_SUCCESS"
  proof -
    note ok = success_run [OF s]
    have t: "trace (main e) =
        startup_calls e @ fst (frame_loop e new_window (frames e)) @
        [GlfwDestroyWindow, GlfwTerminate]"
      using ok by (simp add: main_trace_ok del: frame_loop.simps)
    have a: "resources_after e (startup_calls e) = one_of_each_alive"
      using ok by (simp add: resources_startup)
    have b: "resources_after e (startup_calls e @ fst (frame_loop e new_window (frames e))) =
        one_of_each_alive"
      by (simp only: resources_loop a)
    have step: "resources_after e (cs @ ds) = foldl (effect (window_created e))
        (resources_after e cs) ds" for cs ds
      by (simp add: resources_after_def)
    have c: "resources_after e
        (startup_calls e @ fst (frame_loop e new_window (frames e)) @ [GlfwDestroyWindow]) =
        one_of_each_released"
      using step [of "startup_calls e @ fst (frame_loop e new_window (frames e))"
          "[GlfwDestroyWindow]"]
      by (simp add: b one_of_each_alive_def one_of_each_released_def destroy_context_def
          del: frame_loop.simps)
    have d: "resources_after e (trace (main e)) = one_of_each_released"
      using step [of "startup_calls e @ fst (frame_loop e new_window (frames e))"
          "[GlfwDestroyWindow, GlfwTerminate]"]
      by (simp add: t b one_of_each_alive_def one_of_each_released_def destroy_context_def
          del: frame_loop.simps)
    from t a b c d show ?thesis by blast
  qed
  have bad: "resources_after e (trace (main e)) = no_resources"
    if s: "status (main e) = Some EXIT_FAILURE"
  proof (cases "glfwInit_ok e")
    case False
    then show ?thesis
      by (simp add: main_no_init resources_after_def effect_report_errors)
  next
    case True
    have "\<not> window_created e"
    proof
      assume "window_created e"
      with True s show False by (simp add: main_status_ok split: if_splits)
    qed
    with True show ?thesis
      by (simp add: main_no_window resources_after_def effect_report_errors no_resources_def)
  qed
  from good bad show ?thesis by blast
qed

theorem resource_lifecycle_witness:
  "status (main good_env) = Some EXIT_SUCCESS \<and>
   resources_after good_env (startup_calls good_env) = one_of_each_alive \<and>
   resources_after good_env (trace (main good_env)) = one_of_each_released \<and>
   made_buffers (resources_after good_env (trace (main good_env))) = 1 \<and>
   freed_buffers (resources_after good_env (trace (main good_env))) = 1 \<and>
   made_programs (resources_after good_env (trace (main good_env))) = 1 \<and>
   freed_programs (resources_after good_env (trace (main good_env))) = 1 \<and>
   freed_windows (resources_after good_env (trace (main good_env))) = 1 \<and>
   status (main no_window_env) = Some EXIT_FAILURE \<and>
   resources_after no_window_env (trace (main no_window_env)) = no_resources"
proof -
  have i: "glfwInit_ok good_env" "window_created good_env"
    by (simp_all add: good_env_def)
  have s: "status (main good_env) = Some EXIT_SUCCESS"
    by (simp add: main_status_ok i good_env_loop del: frame_loop.simps)
  have f: "status (main no_window_env) = Some EXIT_FAILURE"
    by (simp add: main_no_window no_window_env_def good_env_def)
  from s resource_lifecycle [of good_env]
  have a: "resources_after good_env (startup_calls good_env) = one_of_each_alive"
    and r: "resources_after good_env (trace (main good_env)) = one_of_each_released"
    by blast+
  from f resource_lifecycle [of no_window_env]
  have n: "resources_after no_window_env (trace (main no_window_env)) = no_resources"
    by blast
  from s a r f n show ?thesis by (simp add: one_of_each_released_def)
qed

section \<open>The key callback\<close>

text \<open>
  C4. For every invocation of the key callback: when the key is escape and the action is
  pressed, the close flag of the window is set (to \<open>GLFW_TRUE\<close>, which reads as true);
  for escape with the action released or repeated, for every other key with any action,
  and in general for every other combination, the window is returned unchanged.
\<close>

theorem key_callback_contract:
  "(key = GLFW_KEY_ESCAPE \<and> action = GLFW_PRESS \<longrightarrow>
      key_callback w key scancode action mods = w\<lparr>should_close := GLFW_TRUE\<rparr> \<and>
      glfwWindowShouldClose (key_callback w key scancode action mods) \<noteq> 0) \<and>
   (key = GLFW_KEY_ESCAPE \<and> (action = GLFW_RELEASE \<or> action = GLFW_REPEAT) \<longrightarrow>
      key_callback w key scancode action mods = w) \<and>
   (key \<noteq> GLFW_KEY_ESCAPE \<longrightarrow> key_callback w key scancode action mods = w) \<and>
   (\<not> (key = GLFW_KEY_ESCAPE \<and> action = GLFW_PRESS) \<longrightarrow>
      key_callback w key scancode action mods = w)"
  by (simp add: key_callback_def glfwSetWindowShouldClose_def glfwWindowShouldClose_def
      GLFW_PRESS_def GLFW_RELEASE_def GLFW_REPEAT_def GLFW_TRUE_def)

theorem key_callback_contract_witness:
  "key_callback new_window 256 9 1 0 = \<lparr>should_close = 1\<rparr> \<and>
   glfwWindowShouldClose (key_callback new_window 256 9 1 0) \<noteq> 0 \<and>
   key_callback new_window 256 9 0 0 = new_window \<and>
   key_callback new_window 256 9 2 0 = new_window \<and>
   key_callback \<lparr>should_close = 0\<rparr> 65 38 1 0 = \<lparr>should_close = 0\<rparr>"
  using key_callback_contract [of 256 1 new_window 9 0]
    key_callback_contract [of 256 0 new_window 9 0]
    key_callback_contract [of 256 2 new_window 9 0]
    key_callback_contract [of 65 1 "\<lparr>should_close = 0\<rparr>" 38 0]
  by (simp add: GLFW_KEY_ESCAPE_def GLFW_PRESS_def GLFW_RELEASE_def GLFW_REPEAT_def
      GLFW_TRUE_def new_window_def glfwWindowShouldClose_def)

section \<open>The projection\<close>

text \<open>
  C5. For every aspect ratio \<open>r > 0\<close> the projection matrix of the transform step is
  the orthographic projection with horizontal bounds \<open>[-r, r]\<close>, vertical bounds
  \<open>[-1, 1]\<close> and near/far bounds \<open>1\<close> and \<open>-1\<close>, in this order: it scales the first
  coordinate by \<open>1 / r\<close> and keeps the others, which is the orthographic map of these
  bounds on every point, and the vertex stage sends the position \<open>(-r, -1)\<close> to
  \<open>(-1, -1)\<close> and the position \<open>(r, 1)\<close> to \<open>(1, 1)\<close>.
\<close>

theorem projection_is_ortho:
  "0 < r \<Longrightarrow>
     glm_ortho (Finite (- r)) (Finite r) (Finite (- 1)) (Finite 1) (Finite 1) (Finite (- 1)) =
       projection (Finite r) \<and>
     projection (Finite r) =
       Mat4 (Vec4 (Finite (1 / r)) (Finite 0) (Finite 0) (Finite 0))
            (Vec4 (Finite 0) (Finite 1) (Finite 0) (Finite 0))
            (Vec4 (Finite 0) (Finite 0) (Finite 1) (Finite 0))
            (Vec4 (Finite 0) (Finite 0) (Finite 0) (Finite 1)) \<and>
     (\<forall>p. mat4_mul_vec4 (projection (Finite r)) (point p) =
           point (spec_ortho (- r) r (- 1) 1 1 (- 1) p)) \<and>
     gl_Position (projection (Finite r)) (Finite (- r), Finite (- 1)) =
       Vec4 (Finite (- 1)) (Finite (- 1)) (Finite 0) (Finite 1) \<and>
     gl_Position (projection (Finite r)) (Finite r, Finite 1) =
       Vec4 (Finite 1) (Finite 1) (Finite 0) (Finite 1)"
proof -
  assume r: "0 < r"
  then have m: "projection (Finite r) =
       Mat4 (Vec4 (Finite (1 / r)) (Finite 0) (Finite 0) (Finite 0))
            (Vec4 (Finite 0) (Finite 1) (Finite 0) (Finite 0))
            (Vec4 (Finite 0) (Finite 0) (Finite 1) (Finite 0))
            (Vec4 (Finite 0) (Finite 0) (Finite 0) (Finite 1))"
    by (simp add: projection_finite)
  have a: "glm_ortho (Finite (- r)) (Finite r) (Finite (- 1)) (Finite 1) (Finite 1) (Finite (- 1)) =
       projection (Finite r)"
    by (simp add: projection_def)
  have b: "\<forall>p. mat4_mul_vec4 (projection (Finite r)) (point p) =
           point (spec_ortho (- r) r (- 1) 1 1 (- 1) p)"
    using r by (simp add: m point_def spec_ortho_def split: prod.splits) (simp add: field_simps)
  have c: "gl_Position (projection (Finite r)) (Finite (- r), Finite (- 1)) =
       Vec4 (Finite (- 1)) (Finite (- 1)) (Finite 0) (Finite 1)"
    using r by (simp add: m gl_Position_def)
  have d: "gl_Position (projection (Finite r)) (Finite r, Finite 1) =
       Vec4 (Finite 1) (Finite 1) (Finite 0) (Finite 1)"
    using r by (simp add: m gl_Position_def)
  from a m b c d show ?thesis by blast
qed

theorem projection_is_ortho_witness:
  "(0::real) < 4 / 3 \<and>
   projection (Finite (4 / 3)) =
       Mat4 (Vec4 (Finite (3 / 4)) (Finite 0) (Finite 0) (Finite 0))
            (Vec4 (Finite 0) (Finite 1) (Finite 0) (Finite 0))
            (Vec4 (Finite 0) (Finite 0) (Finite 1) (Finite 0))
            (Vec4 (Finite 0) (Finite 0) (Finite 0) (Finite 1)) \<and>
   gl_Position (projection (Finite (4 / 3))) (Finite (- (4 / 3)), Finite (- 1)) =
       Vec4 (Finite (- 1)) (Finite (- 1)) (Finite 0) (Finite 1) \<and>
   gl_Position (projection (Finite (4 / 3))) (Finite (4 / 3), Finite 1) =
       Vec4 (Finite 1) (Finite 1) (Finite 0) (Finite 1)"
proof -
  have h: "(0::real) < 4 / 3" by simp
  note t = projection_is_ortho [OF h]
  from t have "projection (Finite (4 / 3)) =
       Mat4 (Vec4 (Finite (1 / (4 / 3))) (Finite 0) (Finite 0) (Finite 0))
            (Vec4 (Finite 0) (Finite 1) (Finite 0) (Finite 0))
            (Vec4 (Finite 0) (Finite 0) (Finite 1) (Finite 0))
            (Vec4 (Finite 0) (Finite 0) (Finite 0) (Finite 1))"
    by blast
  then have m: "projection (Finite (4 / 3)) =
       Mat4 (Vec4 (Finite (3 / 4)) (Finite 0) (Finite 0) (Finite 0))
            (Vec4 (Finite 0) (Finite 1) (Finite 0) (Finite 0))
            (Vec4 (Finite 0) (Finite 0) (Finite 1) (Finite 0))
            (Vec4 (Finite 0) (Finite 0) (Finite 0) (Finite 1))"
    by simp
  from t have lo: "gl_Position (projection (Finite (4 / 3))) (Finite (- (4 / 3)), Finite (- 1)) =
       Vec4 (Finite (- 1)) (Finite (- 1)) (Finite 0) (Finite 1)"
    by blast
  from t have hi: "gl_Position (projection (Finite (4 / 3))) (Finite (4 / 3), Finite 1) =
       Vec4 (Finite 1) (Finite 1) (Finite 0) (Finite 1)"
    by blast
  from h m lo hi show ?thesis by blast
qed

section \<open>The model matrix and the order of composition\<close>

text \<open>
  C6. For every elapsed time \<open>a\<close> the model matrix of the transform step is the
  rotation about the axis \<open>(-1, 0, 0)\<close> by \<open>a\<close> radians applied to the identity: it
  maps every point as the axis-angle formula does, and at time 0 it is the identity.
  The matrix uploaded to the uniform in an iteration is the product of the projection
  and the model matrix, in this order, so that a point is rotated first and projected
  second.
\<close>

theorem model_is_rotation:
  "model (Finite a) =
     Mat4 (Vec4 (Finite 1) (Finite 0) (Finite 0) (Finite 0))
          (Vec4 (Finite 0) (Finite (cos a)) (Finite (- sin a)) (Finite 0))
          (Vec4 (Finite 0) (Finite (sin a)) (Finite (cos a)) (Finite 0))
          (Vec4 (Finite 0) (Finite 0) (Finite 0) (Finite 1)) \<and>
   (\<forall>p. mat4_mul_vec4 (model (Finite a)) (point p) = point (spec_rotation (- 1, 0, 0) a p)) \<and>
   model (Finite 0) = glm_identity \<and>
   uploaded_matrices (frame_body e f) = [mat4_mul (projection (aspect_ratio f)) (model (now f))] \<and>
   (0 < r \<longrightarrow>
      (\<forall>p. mat4_mul_vec4 (mat4_mul (projection (Finite r)) (model (Finite a))) (point p) =
            mat4_mul_vec4 (projection (Finite r)) (mat4_mul_vec4 (model (Finite a)) (point p))))"
proof -
  have b: "\<forall>p. mat4_mul_vec4 (model (Finite a)) (point p) = point (spec_rotation (- 1, 0, 0) a p)"
    by (simp add: model_finite point_def spec_rotation_def split: prod.splits)
      (simp add: algebra_simps)
  have c: "model (Finite 0) = glm_identity"
    by (simp add: model_finite glm_identity_def)
  have d: "uploaded_matrices (frame_body e f) =
      [mat4_mul (projection (aspect_ratio f)) (model (now f))]"
    by (simp add: uploaded_frame_body transform_def)
  have e: "0 < r \<longrightarrow>
      (\<forall>p. mat4_mul_vec4 (mat4_mul (projection (Finite r)) (model (Finite a))) (point p) =
            mat4_mul_vec4 (projection (Finite r)) (mat4_mul_vec4 (model (Finite a)) (point p)))"
    by (simp add: model_finite projection_finite point_def split: prod.splits)
  from model_finite [of a] b c d e show ?thesis by blast
qed


theorem model_is_rotation_witness:
  "(0::real) < 4 / 3 \<and>
   mat4_mul_vec4 (mat4_mul (projection (Finite (4 / 3))) (model (Finite 0))) (point (4 / 3, 1, 0)) =
     mat4_mul_vec4 (projection (Finite (4 / 3))) (mat4_mul_vec4 (model (Finite 0)) (point (4 / 3, 1, 0))) \<and>
   mat4_mul_vec4 (model (Finite 0)) (point (4 / 3, 1, 0)) = point (4 / 3, 1, 0) \<and>
   model (Finite 0) = glm_identity"
proof -
  have h: "(0::real) < 4 / 3" by simp
  note t = model_is_rotation [of 0 good_env escape_frame "4 / 3"]
  from t h have 1: "mat4_mul_vec4 (mat4_mul (projection (Finite (4 / 3))) (model (Finite 0))) (point (4 / 3, 1, 0)) =
     mat4_mul_vec4 (projection (Finite (4 / 3))) (mat4_mul_vec4 (model (Finite 0)) (point (4 / 3, 1, 0)))"
    by blast
  from t have "mat4_mul_vec4 (model (Finite 0)) (point (4 / 3, 1, 0)) =
     point (spec_rotation (- 1, 0, 0) 0 (4 / 3, 1, 0))"
    by blast
  then have 2: "mat4_mul_vec4 (model (Finite 0)) (point (4 / 3, 1, 0)) = point (4 / 3, 1, 0)"
    by (simp add: spec_rotation_def)
  from t have 3: "model (Finite 0) = glm_identity" by blast
  from h 1 2 3 show ?thesis by blast
qed

section \<open>Leaving the loop\<close>

text \<open>
  C7. Whenever the close flag reads true at the top of an iteration, whatever frames and
  events are still to come, the loop makes no further call but that test, so no draw and
  no present; the run then destroys the window, terminates the library and exits with
  success. Frames that follow the poll which set the flag are never read: the run is the
  same without them.
\<close>

theorem close_flag_stops_loop:
  "(glfwWindowShouldClose w \<noteq> 0 \<longrightarrow>
      frame_loop e w fs = ([GlfwWindowShouldClose], True) \<and>
      loop_and_exit e w fs =
        \<lparr>trace = [GlfwWindowShouldClose, GlfwDestroyWindow, GlfwTerminate],
         status = Some EXIT_SUCCESS\<rparr> \<and>
      filter draws_or_presents (trace (loop_and_exit e w fs)) = []) \<and>
   (glfwWindowShouldClose (foldl glfwPollEvents w fs) \<noteq> 0 \<longrightarrow>
      loop_and_exit e w (fs @ gs) = loop_and_exit e w fs \<and>
      status (loop_and_exit e w (fs @ gs)) = Some EXIT_SUCCESS)"
proof -
  have a: "glfwWindowShouldClose w \<noteq> 0 \<longrightarrow>
      frame_loop e w fs = ([GlfwWindowShouldClose], True) \<and>
      loop_and_exit e w fs =
        \<lparr>trace = [GlfwWindowShouldClose, GlfwDestroyWindow, GlfwTerminate],
         status = Some EXIT_SUCCESS\<rparr> \<and>
      filter draws_or_presents (trace (loop_and_exit e w fs)) = []"
    by (simp add: frame_loop_closed loop_and_exit_def del: frame_loop.simps)
  have b: "loop_and_exit e w (fs @ gs) = loop_and_exit e w fs \<and>
      status (loop_and_exit e w (fs @ gs)) = Some EXIT_SUCCESS"
    if h: "glfwWindowShouldClose (foldl glfwPollEvents w fs) \<noteq> 0"
  proof -
    have "\<exists>k\<le>length fs. glfwWindowShouldClose (foldl glfwPollEvents w (take k fs)) \<noteq> 0"
      using h by (intro exI [of _ "length fs"]) simp
    then have "snd (frame_loop e w fs)" by (simp add: loop_stops_iff del: frame_loop.simps)
    then show ?thesis
      using frame_loop_ignores_rest [OF h, of e gs]
      by (simp add: loop_and_exit_def case_prod_unfold del: frame_loop.simps)
  qed
  from a b show ?thesis by blast
qed

theorem close_flag_stops_loop_witness:
  "glfwWindowShouldClose \<lparr>should_close = 1\<rparr> \<noteq> 0 \<and>
   frame_loop good_env \<lparr>should_close = 1\<rparr> [escape_frame, zero_height_frame] =
     ([GlfwWindowShouldClose], True) \<and>
   loop_and_exit good_env \<lparr>should_close = 1\<rparr> [escape_frame, zero_height_frame] =
     \<lparr>trace = [GlfwWindowShouldClose, GlfwDestroyWindow, GlfwTerminate],
      status = Some EXIT_SUCCESS\<rparr> \<and>
   glfwWindowShouldClose (foldl glfwPollEvents new_window [escape_frame]) \<noteq> 0 \<and>
   loop_and_exit good_env new_window ([escape_frame] @ [zero_height_frame]) =
     loop_and_exit good_env new_window [escape_frame]"
proof -
  have h: "glfwWindowShouldClose \<lparr>should_close = 1\<rparr> \<noteq> 0"
    by (simp add: glfwWindowShouldClose_def)
  have g: "glfwWindowShouldClose (foldl glfwPollEvents new_window [escape_frame]) \<noteq> 0"
    using escape_closes by simp
  from h g
    close_flag_stops_loop [of "\<lparr>should_close = 1\<rparr>" good_env
      "[escape_frame, zero_height_frame]" "[]"]
    close_flag_stops_loop [of new_window good_env "[escape_frame]" "[zero_height_frame]"]
  show ?thesis by blast
qed

section \<open>The exit status\<close>

text \<open>
  C9. A run has three ends and no other. It exits with the failure status exactly when
  the initialisation of the library or the creation of the window and context fails; it
  exits with the success status exactly when both succeed and the loop finds the close
  flag set after some number of polls; otherwise it is still in the loop when the frames
  run out. The success status is zero and the failure status is not.
\<close>

theorem exit_status_paths:
  "(status (main e) = Some EXIT_FAILURE \<longleftrightarrow> \<not> glfwInit_ok e \<or> \<not> window_created e) \<and>
   (status (main e) = Some EXIT_SUCCESS \<longleftrightarrow>
      glfwInit_ok e \<and> window_created e \<and>
      (\<exists>k\<le>length (frames e).
         glfwWindowShouldClose (foldl glfwPollEvents new_window (take k (frames e))) \<noteq> 0)) \<and>
   (status (main e) = None \<longleftrightarrow>
      glfwInit_ok e \<and> window_created e \<and>
      \<not> (\<exists>k\<le>length (frames e).
         glfwWindowShouldClose (foldl glfwPollEvents new_window (take k (frames e))) \<noteq> 0)) \<and>
   exit_code EXIT_SUCCESS = 0 \<and> exit_code EXIT_FAILURE \<noteq> 0"
proof (cases "glfwInit_ok e \<and> window_created e")
  case True
  then show ?thesis
    using loop_stops_iff [of e new_window "frames e"]
    by (simp add: main_status_ok)
next
  case False
  show ?thesis
  proof (cases "glfwInit_ok e")
    case True
    with False have "\<not> window_created e" by simp
    with True show ?thesis by (simp add: main_no_window)
  next
    case False
    then show ?thesis by (simp add: main_no_init)
  qed
qed

theorem exit_status_paths_witness:
  "status (main no_init_env) = Some EXIT_FAILURE \<and>
   status (main no_window_env) = Some EXIT_FAILURE \<and>
   status (main good_env) = Some EXIT_SUCCESS \<and>
   status (main (good_env\<lparr>frames := [zero_height_frame]\<rparr>)) = None"
proof -
  have a: "status (main no_init_env) = Some EXIT_FAILURE"
    using exit_status_paths [of no_init_env] by (simp add: no_init_env_def good_env_def)
  have b: "status (main no_window_env) = Some EXIT_FAILURE"
    using exit_status_paths [of no_window_env] by (simp add: no_window_env_def good_env_def)
  have "glfwWindowShouldClose (foldl glfwPollEvents new_window (take 1 (frames good_env))) \<noteq> 0"
    using escape_closes by (simp add: good_env_def)
  then have "\<exists>k\<le>length (frames good_env).
      glfwWindowShouldClose (foldl glfwPollEvents new_window (take k (frames good_env))) \<noteq> 0"
    by (intro exI [of _ 1]) (simp add: good_env_def)
  then have c: "status (main good_env) = Some EXIT_SUCCESS"
    using exit_status_paths [of good_env] by (simp add: good_env_def)
  have "\<And>k. glfwWindowShouldClose
      (foldl glfwPollEvents new_window (take k [zero_height_frame])) = 0"
  proof -
    fix k
    show "glfwWindowShouldClose
        (foldl glfwPollEvents new_window (take k [zero_height_frame])) = 0"
      by (cases k) (simp_all add: new_window_open glfwPollEvents_def zero_height_frame_def)
  qed
  then have d: "status (main (good_env\<lparr>frames := [zero_height_frame]\<rparr>)) = None"
    using exit_status_paths [of "good_env\<lparr>frames := [zero_height_frame]\<rparr>"]
    by (simp add: good_env_def)
  from a b c d show ?thesis by simp
qed

section \<open>The vertex data\<close>

text \<open>
  C10. The constant array holds exactly three vertices, with positions \<open>(-0.6, -0.4)\<close>,
  \<open>(0.6, -0.4)\<close>, \<open>(0, 0.6)\<close> and colours \<open>(1, 0, 0)\<close>, \<open>(0, 1, 0)\<close>, \<open>(0, 0, 1)\<close>,
  each record being two position floats followed by three colour floats. A run that
  reaches the resource setup uploads this array exactly once, whole and as static data,
  and declares the position attribute as two floats at offset 0 and the colour attribute
  as three floats after the two position floats, both with the stride of one record; no
  other call of any run writes buffer data.
\<close>

theorem vertex_buffer_upload:
  "map floats_of_vertex vertices =
     [[Finite (- 0.6), Finite (- 0.4), Finite 1, Finite 0, Finite 0],
      [Finite 0.6, Finite (- 0.4), Finite 0, Finite 1, Finite 0],
      [Finite 0, Finite 0.6, Finite 0, Finite 0, Finite 1]] \<and>
   sizeof_vertex = 5 * sizeof_float \<and>
   filter uploads_buffer (trace (main e)) =
     (if glfwInit_ok e \<and> window_created e
      then [GlBufferData GL_ARRAY_BUFFER (3 * (5 * sizeof_float)) vertices GL_STATIC_DRAW]
      else []) \<and>
   filter sets_attrib_pointer (trace (main e)) =
     (if glfwInit_ok e \<and> window_created e
      then [GlVertexAttribPointer (gluint (vpos_location e)) 2 GL_FLOAT False
              (5 * sizeof_float) 0,
            GlVertexAttribPointer (gluint (vcol_location e)) 3 GL_FLOAT False
              (5 * sizeof_float) (2 * sizeof_float)]
      else [])"
proof -
  have a: "map floats_of_vertex vertices =
     [[Finite (- 0.6), Finite (- 0.4), Finite 1, Finite 0, Finite 0],
      [Finite 0.6, Finite (- 0.4), Finite 0, Finite 1, Finite 0],
      [Finite 0, Finite 0.6, Finite 0, Finite 0, Finite 1]]"
    by (simp add: vertices_def floats_of_vertex_def)
  have b: "sizeof_vertex = 5 * sizeof_float" by (simp add: sizeof_vertex_def)
  have c: "filter uploads_buffer (trace (main e)) =
     (if glfwInit_ok e \<and> window_created e
      then [GlBufferData GL_ARRAY_BUFFER (3 * (5 * sizeof_float)) vertices GL_STATIC_DRAW]
      else [])"
  proof (cases "glfwInit_ok e \<and> window_created e")
    case True
    then show ?thesis
      by (simp add: main_trace_ok startup_calls_def context_setup_def resource_setup_def
          filter_report_errors filter_loop per_frame_not_upload sizes sizeof_float_def
          del: frame_loop.simps)
  next
    case False
    then show ?thesis
      by (cases "glfwInit_ok e") (simp_all add: main_no_init main_no_window filter_report_errors)
  qed
  have d: "filter sets_attrib_pointer (trace (main e)) =
     (if glfwInit_ok e \<and> window_created e
      then [GlVertexAttribPointer (gluint (vpos_location e)) 2 GL_FLOAT False
              (5 * sizeof_float) 0,
            GlVertexAttribPointer (gluint (vcol_location e)) 3 GL_FLOAT False
              (5 * sizeof_float) (2 * sizeof_float)]
      else [])"
  proof (cases "glfwInit_ok e \<and> window_created e")
    case True
    then show ?thesis
      by (simp add: main_trace_ok startup_calls_def context_setup_def resource_setup_def
          filter_report_errors filter_loop per_frame_not_pointer sizes sizeof_float_def
          del: frame_loop.simps)
  next
    case False
    then show ?thesis
      by (cases "glfwInit_ok e") (simp_all add: main_no_init main_no_window filter_report_errors)
  qed
  from a b c d show ?thesis by blast
qed

theorem vertex_buffer_upload_witness:
  "filter uploads_buffer (trace (main good_env)) =
     [GlBufferData GL_ARRAY_BUFFER 60 vertices GL_STATIC_DRAW] \<and>
   filter uploads_buffer (trace (main no_init_env)) = [] \<and>
   filter sets_attrib_pointer (trace (main broken_shader_env)) =
     [GlVertexAttribPointer 4294967295 2 GL_FLOAT False 20 0,
      GlVertexAttribPointer 4294967295 3 GL_FLOAT False 20 8]"
  using vertex_buffer_upload [of good_env] vertex_buffer_upload [of no_init_env]
    vertex_buffer_upload [of broken_shader_env]
  by (simp add: good_env_def no_init_env_def broken_shader_env_def sizeof_float_def gluint_def)

end
